theory Spec2Isabelle
  imports Main
begin

section \<open>Python values shared by both source files\<close>

text \<open>
  A Python exception object: its class name and the text that \<^verbatim>\<open>str(exception)\<close>
  gives. An exception instance defines neither \<^verbatim>\<open>__bool__\<close> nor \<^verbatim>\<open>__len__\<close>, so it is
  truthy: \<^verbatim>\<open>if exception:\<close> takes the branch for every exception and skips it for
  \<^verbatim>\<open>None\<close> alone.
\<close>

datatype py_exception = PyException string string

fun str_exception :: "py_exception \<Rightarrow> string" where
  "str_exception (PyException cls msg) = msg"

section \<open>The Langfuse callback (src/testing/tracing.py)\<close>

text \<open>
  The Langfuse client is a third-party library. Its stateful client objects are modelled
  as handles that remember which call created them and under which id, and every call
  made on the client or on one of its objects is appended to \<open>calls\<close>, oldest first.
\<close>

datatype handle = TraceH string | SpanH string | GenerationH string

datatype 'v api_call =
    TraceCreate string string string 'v
      \<comment> \<open>\<^verbatim>\<open>langfuse.trace(name, id, session_id, input)\<close>\<close>
  | SpanCreate handle string string 'v
      \<comment> \<open>\<^verbatim>\<open>parent.span(name, id, input)\<close>, the parent first\<close>
  | GenerationCreate handle string string 'v string
      \<comment> \<open>\<^verbatim>\<open>parent.generation(name, id, input, model)\<close>, the parent first\<close>
  | ObservationEnd handle "'v option" string "string option"
      \<comment> \<open>\<^verbatim>\<open>observation.end(output, level, status_message)\<close>\<close>
  | TraceUpdate handle "'v option"
      \<comment> \<open>\<^verbatim>\<open>trace.update(output)\<close>\<close>

text \<open>
  The callback object: \<^verbatim>\<open>self.session_id\<close>, the dictionaries \<^verbatim>\<open>self.traces\<close> and
  \<^verbatim>\<open>self.observations\<close> keyed by call id, and the calls received by Langfuse.
\<close>

record 'v callback =
  session_id :: string
  traces :: "string \<rightharpoonup> handle"
  observations :: "string \<rightharpoonup> handle"
  calls :: "'v api_call list"

text \<open>
  \<^verbatim>\<open>ACTIVE_CALL_ID.get()\<close> is an optional string. \<^verbatim>\<open>dict.get(key)\<close> with the key
  \<^verbatim>\<open>None\<close> finds nothing: the dictionaries are only ever written under call ids.
\<close>

fun dict_get :: "(string \<rightharpoonup> 'a) \<Rightarrow> string option \<Rightarrow> 'a option" where
  "dict_get d None = None"
| "dict_get d (Some k) = d k"

text \<open>
  The outputs of a module: an object that has a \<^verbatim>\<open>_store\<close> attribute (a prediction),
  or any other object. The outputs of a handler are \<^verbatim>\<open>None\<close> when the call failed.
\<close>

datatype 'v module_outputs = HasStore 'v | NoStore 'v

fun module_output :: "'v module_outputs option \<Rightarrow> 'v option" where
  "module_output None = None"
| "module_output (Some (HasStore st)) = Some st"
| "module_output (Some (NoStore v)) = Some v"

definition get_observation_status :: "py_exception option \<Rightarrow> string \<times> string option" where
  "get_observation_status exception =
     (let level = ''DEFAULT''; status_message = None in
      case exception of
        None \<Rightarrow> (level, status_message)
      | Some e \<Rightarrow> (''ERROR'', Some (str_exception e)))"

text \<open>
  \<^verbatim>\<open>on_module_start\<close>: the ambient call id, the caller's call id, the class name of the
  instance and the inputs. \<^verbatim>\<open>parent_observation or parent_trace\<close> takes the observation
  when there is one (client objects are truthy).
\<close>

definition on_module_start ::
  "string option \<Rightarrow> string \<Rightarrow> string \<Rightarrow> 'v \<Rightarrow> 'v callback \<Rightarrow> 'v callback" where
  "on_module_start active_call_id call_id class_name inputs cb =
     (let parent_call_id = active_call_id;
          parent_trace = dict_get (traces cb) parent_call_id;
          parent_observation = dict_get (observations cb) parent_call_id
      in case (parent_trace, parent_observation) of
           (None, None) \<Rightarrow>
             cb\<lparr>calls := calls cb @ [TraceCreate class_name call_id (session_id cb) inputs],
                traces := (traces cb)(call_id \<mapsto> TraceH call_id)\<rparr>
         | (_, Some parent) \<Rightarrow>
             cb\<lparr>calls := calls cb @ [SpanCreate parent class_name (''span-'' @ call_id) inputs],
                observations := (observations cb)(call_id \<mapsto> SpanH (''span-'' @ call_id))\<rparr>
         | (Some parent, None) \<Rightarrow>
             cb\<lparr>calls := calls cb @ [SpanCreate parent class_name (''span-'' @ call_id) inputs],
                observations := (observations cb)(call_id \<mapsto> SpanH (''span-'' @ call_id))\<rparr>)"

text \<open>
  \<^verbatim>\<open>on_module_end\<close>. \<^verbatim>\<open>self.traces.pop(call_id)\<close> raises \<^verbatim>\<open>KeyError\<close> when the call
  id was never recorded; the handlers return the exception raised, if any, and the
  callback as the handler left it.
\<close>

definition on_module_end ::
  "string \<Rightarrow> 'v module_outputs option \<Rightarrow> py_exception option \<Rightarrow> 'v callback
     \<Rightarrow> py_exception option \<times> 'v callback" where
  "on_module_end call_id outputs exception cb =
     (case get_observation_status exception of (level, status_message) \<Rightarrow>
      let output = module_output outputs in
      case observations cb call_id of
        Some observation \<Rightarrow>
          (None, cb\<lparr>observations := (observations cb)(call_id := None),
                    calls := calls cb @ [ObservationEnd observation output level status_message]\<rparr>)
      | None \<Rightarrow>
          (case traces cb call_id of
             None \<Rightarrow> (Some (PyException ''KeyError'' call_id), cb)
           | Some trace \<Rightarrow>
               (None, cb\<lparr>traces := (traces cb)(call_id := None),
                         calls := calls cb @ [TraceUpdate trace output]\<rparr>)))"

text \<open>
  \<^verbatim>\<open>on_lm_start\<close>: as for a module, but a root call does not return after creating
  the trace: it sets \<^verbatim>\<open>parent_trace = trace\<close> and goes on to create the generation
  under it. \<open>model\<close> is \<^verbatim>\<open>instance.model\<close>.
\<close>

definition on_lm_start ::
  "string option \<Rightarrow> string \<Rightarrow> string \<Rightarrow> string \<Rightarrow> 'v \<Rightarrow> 'v callback \<Rightarrow> 'v callback" where
  "on_lm_start active_call_id call_id class_name model inputs cb =
     (let parent_call_id = active_call_id;
          parent_trace = dict_get (traces cb) parent_call_id;
          parent_observation = dict_get (observations cb) parent_call_id
      in case (parent_trace, parent_observation) of
           (None, None) \<Rightarrow>
             cb\<lparr>calls := calls cb @
                   [TraceCreate class_name call_id (session_id cb) inputs,
                    GenerationCreate (TraceH call_id) class_name (''generation-'' @ call_id) inputs model],
                traces := (traces cb)(call_id \<mapsto> TraceH call_id),
                observations := (observations cb)(call_id \<mapsto> GenerationH (''generation-'' @ call_id))\<rparr>
         | (_, Some parent) \<Rightarrow>
             cb\<lparr>calls := calls cb @
                   [GenerationCreate parent class_name (''generation-'' @ call_id) inputs model],
                observations := (observations cb)(call_id \<mapsto> GenerationH (''generation-'' @ call_id))\<rparr>
         | (Some parent, None) \<Rightarrow>
             cb\<lparr>calls := calls cb @
                   [GenerationCreate parent class_name (''generation-'' @ call_id) inputs model],
                observations := (observations cb)(call_id \<mapsto> GenerationH (''generation-'' @ call_id))\<rparr>)"

text \<open>
  \<^verbatim>\<open>on_lm_end\<close>: the trace, if the call has one, is updated first; then
  \<^verbatim>\<open>self.observations.pop(call_id)\<close> raises \<^verbatim>\<open>KeyError\<close> when there is no observation.
\<close>

definition on_lm_end ::
  "string \<Rightarrow> 'v option \<Rightarrow> py_exception option \<Rightarrow> 'v callback
     \<Rightarrow> py_exception option \<times> 'v callback" where
  "on_lm_end call_id outputs exception cb =
     (case get_observation_status exception of (level, status_message) \<Rightarrow>
      let cb1 = (case traces cb call_id of
                   Some trace \<Rightarrow>
                     cb\<lparr>traces := (traces cb)(call_id := None),
                        calls := calls cb @ [TraceUpdate trace outputs]\<rparr>
                 | None \<Rightarrow> cb)
      in case observations cb1 call_id of
           None \<Rightarrow> (Some (PyException ''KeyError'' call_id), cb1)
         | Some observation \<Rightarrow>
             (None, cb1\<lparr>observations := (observations cb1)(call_id := None),
                        calls := calls cb1 @ [ObservationEnd observation outputs level status_message]\<rparr>))"

section \<open>The optimizer's compile (src/dspy/teleprompt/mipro_optimizer_v2_plus.py)\<close>

text \<open>
  Programs are Python objects: a program is known by its reference, and \<open>programs\<close>
  holds the object behind each reference. The optimizer instance \<^verbatim>\<open>self\<close> is the
  attributes \<^verbatim>\<open>compile\<close> itself reads or writes; \<open>self_other\<close> stands for all its other
  attributes and the state of the random number generators.
\<close>

type_synonym ref = nat

record ('p, 'r) world =
  self_seed :: "int option"
  self_max_bootstrapped_demos :: int
  self_max_labeled_demos :: int
  self_auto :: "string option"
  self_other :: 'r
  programs :: "'p list"

text \<open>The keyword arguments of \<^verbatim>\<open>compile\<close>, under their own names.\<close>

record 'e args =
  trainset :: "'e list"
  teacher :: "ref option"
  valset :: "'e list option"
  num_trials :: int
  max_bootstrapped_demos :: "int option"
  max_labeled_demos :: "int option"
  seed :: "int option"
  minibatch :: bool
  minibatch_size :: int
  minibatch_full_eval_steps :: int
  program_aware_proposer :: bool
  data_aware_proposer :: bool
  view_data_batch_size :: int
  tip_aware_proposer :: bool
  fewshot_aware_proposer :: bool
  requires_permission_to_run :: bool

text \<open>
  The \<^verbatim>\<open>Evaluate\<close> object built at line 99: the validation set, the metric, thread
  count and error budget taken from \<^verbatim>\<open>self\<close>, and the two display flags.
\<close>

record ('e, 'r) evaluate =
  devset :: "'e list"
  settings :: 'r
  display_table :: bool
  display_progress :: bool

text \<open>
  What \<^verbatim>\<open>compile\<close> does to the outside, in order: each call of a method of the base
  class with its arguments, the deep copy, the construction of the evaluator and the
  log line. \<open>'i\<close> are instruction candidates and \<open>'d\<close> demo candidates.
\<close>

datatype ('e, 'i, 'd, 'r) event =
    Call_set_random_seeds "int option"
  | Call_set_and_validate_datasets "'e list" "'e list option"
  | Call_set_hyperparams_from_run_mode ref int bool bool "'e list"
  | Call_print_auto_run_settings int bool "'e list"
  | Call_get_user_confirmation ref int bool int int "'e list" bool
  | Logger_info string
  | Call_deepcopy ref
  | Evaluate_created "('e, 'r) evaluate"
  | Call_propose_instructions ref "'e list" "'d option" int bool bool bool bool
  | Call_optimize_prompt_parameters
      ref 'i "'d option" "('e, 'r) evaluate" "'e list" int bool int int "int option"

text \<open>
  The methods \<^verbatim>\<open>compile\<close> inherits from \<^verbatim>\<open>MIPROv2\<close> are not part of the source files:
  they are parameters. Each takes its arguments and the world, and gives back what it
  returns or raises together with the world as it left it.
\<close>

type_synonym ('a, 'p, 'r) base_method = "('p, 'r) world \<Rightarrow> (py_exception + 'a) \<times> ('p, 'r) world"

record ('p, 'e, 'i, 'd, 'r) base =
  set_random_seeds :: "int option \<Rightarrow> (unit, 'p, 'r) base_method"
  set_and_validate_datasets ::
    "'e list \<Rightarrow> 'e list option \<Rightarrow> ('e list \<times> 'e list, 'p, 'r) base_method"
  set_hyperparams_from_run_mode ::
    "ref \<Rightarrow> int \<Rightarrow> bool \<Rightarrow> bool \<Rightarrow> 'e list \<Rightarrow> (int \<times> 'e list \<times> bool, 'p, 'r) base_method"
  print_auto_run_settings :: "int \<Rightarrow> bool \<Rightarrow> 'e list \<Rightarrow> (unit, 'p, 'r) base_method"
  get_user_confirmation ::
    "ref \<Rightarrow> int \<Rightarrow> bool \<Rightarrow> int \<Rightarrow> int \<Rightarrow> 'e list \<Rightarrow> bool \<Rightarrow> (bool, 'p, 'r) base_method"
  propose_instructions ::
    "ref \<Rightarrow> 'e list \<Rightarrow> 'd option \<Rightarrow> int \<Rightarrow> bool \<Rightarrow> bool \<Rightarrow> bool \<Rightarrow> bool \<Rightarrow> ('i, 'p, 'r) base_method"
  optimize_prompt_parameters ::
    "ref \<Rightarrow> 'i \<Rightarrow> 'd option \<Rightarrow> ('e, 'r) evaluate \<Rightarrow> 'e list \<Rightarrow> int \<Rightarrow> bool \<Rightarrow> int \<Rightarrow> int
       \<Rightarrow> int option \<Rightarrow> (ref, 'p, 'r) base_method"

subsection \<open>Statements in sequence\<close>

text \<open>
  A statement runs on the world and the events so far; it returns a value or raises,
  and in both cases leaves a world and the events behind. \<open>then_do\<close> runs the next
  statement unless the first one raised.
\<close>

type_synonym ('a, 's) stmt = "'s \<Rightarrow> (py_exception + 'a) \<times> 's"

definition return :: "'a \<Rightarrow> ('a, 's) stmt" where
  "return x s = (Inr x, s)"

definition raise :: "py_exception \<Rightarrow> ('a, 's) stmt" where
  "raise e s = (Inl e, s)"

definition then_do :: "('a, 's) stmt \<Rightarrow> ('a \<Rightarrow> ('b, 's) stmt) \<Rightarrow> ('b, 's) stmt" where
  "then_do m f s = (case m s of (Inl e, s') \<Rightarrow> (Inl e, s') | (Inr x, s') \<Rightarrow> f x s')"

definition attr :: "('w \<Rightarrow> 'a) \<Rightarrow> ('a, 'w \<times> 'l) stmt" where
  "attr g s = (Inr (g (fst s)), s)"

definition assign :: "('w \<Rightarrow> 'w) \<Rightarrow> (unit, 'w \<times> 'l) stmt" where
  "assign g s = (Inr (), (g (fst s), snd s))"

definition emit :: "'ev \<Rightarrow> (unit, 'w \<times> 'ev list) stmt" where
  "emit ev s = (Inr (), (fst s, snd s @ [ev]))"

definition call :: "'ev \<Rightarrow> ('w \<Rightarrow> (py_exception + 'a) \<times> 'w) \<Rightarrow> ('a, 'w \<times> 'ev list) stmt" where
  "call ev f s = (case f (fst s) of (r, w') \<Rightarrow> (r, (w', snd s @ [ev])))"

subsection \<open>Python expressions used by compile\<close>

text \<open>\<^verbatim>\<open>seed or self.seed\<close>: the first operand unless it is falsy, that is \<^verbatim>\<open>None\<close> or \<open>0\<close>.\<close>

fun seed_or :: "int option \<Rightarrow> int option \<Rightarrow> int option" where
  "seed_or None other = other"
| "seed_or (Some n) other = (if n = 0 then other else Some n)"

text \<open>\<^verbatim>\<open>if self.auto:\<close> holds for a string that is not empty.\<close>

fun truthy_auto :: "string option \<Rightarrow> bool" where
  "truthy_auto None = False"
| "truthy_auto (Some mode) = (mode \<noteq> [])"

text \<open>The decimal digits of a length, as an f-string formats it.\<close>

fun str_nat :: "nat \<Rightarrow> string" where
  "str_nat n = (if n < 10 then [''0123456789'' ! n]
                else str_nat (n div 10) @ [''0123456789'' ! (n mod 10)])"

declare str_nat.simps [simp del]

subsection \<open>The calls compile makes\<close>

definition do_set_random_seeds ::
  "('p, 'e, 'i, 'd, 'r) base \<Rightarrow> int option
     \<Rightarrow> (unit, ('p, 'r) world \<times> ('e, 'i, 'd, 'r) event list) stmt" where
  "do_set_random_seeds h sd = call (Call_set_random_seeds sd) (set_random_seeds h sd)"

definition do_set_and_validate_datasets ::
  "('p, 'e, 'i, 'd, 'r) base \<Rightarrow> 'e list \<Rightarrow> 'e list option
     \<Rightarrow> ('e list \<times> 'e list, ('p, 'r) world \<times> ('e, 'i, 'd, 'r) event list) stmt" where
  "do_set_and_validate_datasets h ts vs =
     call (Call_set_and_validate_datasets ts vs) (set_and_validate_datasets h ts vs)"

definition do_set_hyperparams_from_run_mode ::
  "('p, 'e, 'i, 'd, 'r) base \<Rightarrow> ref \<Rightarrow> int \<Rightarrow> bool \<Rightarrow> bool \<Rightarrow> 'e list
     \<Rightarrow> (int \<times> 'e list \<times> bool, ('p, 'r) world \<times> ('e, 'i, 'd, 'r) event list) stmt" where
  "do_set_hyperparams_from_run_mode h p n mb zs vs =
     call (Call_set_hyperparams_from_run_mode p n mb zs vs)
          (set_hyperparams_from_run_mode h p n mb zs vs)"

definition do_print_auto_run_settings ::
  "('p, 'e, 'i, 'd, 'r) base \<Rightarrow> int \<Rightarrow> bool \<Rightarrow> 'e list
     \<Rightarrow> (unit, ('p, 'r) world \<times> ('e, 'i, 'd, 'r) event list) stmt" where
  "do_print_auto_run_settings h n mb vs =
     call (Call_print_auto_run_settings n mb vs) (print_auto_run_settings h n mb vs)"

definition do_get_user_confirmation ::
  "('p, 'e, 'i, 'd, 'r) base \<Rightarrow> ref \<Rightarrow> int \<Rightarrow> bool \<Rightarrow> int \<Rightarrow> int \<Rightarrow> 'e list \<Rightarrow> bool
     \<Rightarrow> (bool, ('p, 'r) world \<times> ('e, 'i, 'd, 'r) event list) stmt" where
  "do_get_user_confirmation h p n mb mbs steps vs aware =
     call (Call_get_user_confirmation p n mb mbs steps vs aware)
          (get_user_confirmation h p n mb mbs steps vs aware)"

definition do_propose_instructions ::
  "('p, 'e, 'i, 'd, 'r) base \<Rightarrow> ref \<Rightarrow> 'e list \<Rightarrow> 'd option \<Rightarrow> int \<Rightarrow> bool \<Rightarrow> bool \<Rightarrow> bool \<Rightarrow> bool
     \<Rightarrow> ('i, ('p, 'r) world \<times> ('e, 'i, 'd, 'r) event list) stmt" where
  "do_propose_instructions h p ts dc view pa da ta fa =
     call (Call_propose_instructions p ts dc view pa da ta fa)
          (propose_instructions h p ts dc view pa da ta fa)"

definition do_optimize_prompt_parameters ::
  "('p, 'e, 'i, 'd, 'r) base \<Rightarrow> ref \<Rightarrow> 'i \<Rightarrow> 'd option \<Rightarrow> ('e, 'r) evaluate \<Rightarrow> 'e list \<Rightarrow> int
     \<Rightarrow> bool \<Rightarrow> int \<Rightarrow> int \<Rightarrow> int option
     \<Rightarrow> (ref, ('p, 'r) world \<times> ('e, 'i, 'd, 'r) event list) stmt" where
  "do_optimize_prompt_parameters h p ic dc ev vs n mb mbs steps sd =
     call (Call_optimize_prompt_parameters p ic dc ev vs n mb mbs steps sd)
          (optimize_prompt_parameters h p ic dc ev vs n mb mbs steps sd)"

text \<open>
  Modelled from the spec: \<^verbatim>\<open>student.deepcopy()\<close>, a method of the program class, which
  is not among the source files. The spec calls the result an independent deep copy that
  shares no mutable state with the original: a new object, behind a reference that did
  not exist before, holding what the original holds. A reference always has its object
  in Python; a reference without one is answered with an exception here so that no
  unspecified value is read.
\<close>

definition deepcopy ::
  "ref \<Rightarrow> (ref, ('p, 'r) world \<times> ('e, 'i, 'd, 'r) event list) stmt" where
  "deepcopy p s =
     (let w = fst s in
      if p < length (programs w)
      then (Inr (length (programs w)),
            (w\<lparr>programs := programs w @ [programs w ! p]\<rparr>, snd s @ [Call_deepcopy p]))
      else (Inl (PyException ''ReferenceError'' ''no such program''), s))"

definition new_Evaluate ::
  "'e list \<Rightarrow> (('e, 'r) evaluate, ('p, 'r) world \<times> ('e, 'i, 'd, 'r) event list) stmt" where
  "new_Evaluate vs s =
     (let evaluate = \<lparr>devset = vs, settings = self_other (fst s),
                      display_table = False, display_progress = True\<rparr>
      in (Inr evaluate, (fst s, snd s @ [Evaluate_created evaluate])))"

subsection \<open>compile\<close>

text \<open>
  The local variables of \<^verbatim>\<open>compile\<close> once lines 54 to 76 have run: the seed in use, the
  two datasets, and the trial count, validation set and minibatch flag as
  \<^verbatim>\<open>_set_hyperparams_from_run_mode\<close> returned them.
\<close>

record 'e locals =
  l_seed :: "int option"
  l_trainset :: "'e list"
  l_valset :: "'e list"
  l_num_trials :: int
  l_minibatch :: bool
  l_zeroshot_opt :: bool

text \<open>Lines 54 to 76: seeds, the two overrides, the datasets, the run mode.\<close>

definition compile_setup ::
  "('p, 'e, 'i, 'd, 'r) base \<Rightarrow> ref \<Rightarrow> 'e args
     \<Rightarrow> ('e locals, ('p, 'r) world \<times> ('e, 'i, 'd, 'r) event list) stmt" where
  "compile_setup h student a =
     then_do (attr self_seed) (\<lambda>instance_seed.
     let seed' = seed_or (seed a) instance_seed in
     then_do (do_set_random_seeds h seed') (\<lambda>_.
     then_do (case max_bootstrapped_demos a of
                None \<Rightarrow> return ()
              | Some n \<Rightarrow> assign (\<lambda>w. w\<lparr>self_max_bootstrapped_demos := n\<rparr>)) (\<lambda>_.
     then_do (case max_labeled_demos a of
                None \<Rightarrow> return ()
              | Some n \<Rightarrow> assign (\<lambda>w. w\<lparr>self_max_labeled_demos := n\<rparr>)) (\<lambda>_.
     then_do (do_set_and_validate_datasets h (trainset a) (valset a)) (\<lambda>(trainset', valset').
     then_do (attr (\<lambda>w. self_max_bootstrapped_demos w = 0 \<and> self_max_labeled_demos w = 0))
       (\<lambda>zeroshot_opt.
     then_do (do_set_hyperparams_from_run_mode h student (num_trials a) (minibatch a)
                zeroshot_opt valset') (\<lambda>(num_trials', valset'', minibatch').
     then_do (attr self_auto) (\<lambda>auto.
     then_do (if truthy_auto auto
              then do_print_auto_run_settings h num_trials' minibatch' valset''
              else return ()) (\<lambda>_.
     return \<lparr>l_seed = seed', l_trainset = trainset', l_valset = valset'',
             l_num_trials = num_trials', l_minibatch = minibatch',
             l_zeroshot_opt = zeroshot_opt\<rparr>)))))))))"

text \<open>
  Lines 118 to 148: instruction proposal, the discarding of the demo candidates in
  zero-shot mode and the search, for the program, the evaluator and the value that
  \<^verbatim>\<open>demo_candidates\<close> has when line 118 is reached.
\<close>

definition compile_propose_and_search ::
  "('p, 'e, 'i, 'd, 'r) base \<Rightarrow> 'e args \<Rightarrow> 'e locals \<Rightarrow> ref \<Rightarrow> ('e, 'r) evaluate \<Rightarrow> 'd option
     \<Rightarrow> (ref, ('p, 'r) world \<times> ('e, 'i, 'd, 'r) event list) stmt" where
  "compile_propose_and_search h a l program evaluate demo_candidates =
     then_do (do_propose_instructions h program (l_trainset l) demo_candidates
                (view_data_batch_size a) (program_aware_proposer a) (data_aware_proposer a)
                (tip_aware_proposer a) (fewshot_aware_proposer a)) (\<lambda>instruction_candidates.
     let demo_candidates = (if l_zeroshot_opt l then None else demo_candidates) in
     then_do (do_optimize_prompt_parameters h program instruction_candidates demo_candidates
                evaluate (l_valset l) (l_num_trials l) (l_minibatch l) (minibatch_size a)
                (minibatch_full_eval_steps a) (l_seed l)) (\<lambda>best_program.
     return best_program))"

text \<open>
  Lines 97 to 148: the copy, the evaluator, and the steps above. The bootstrap step is
  commented out in the source: line 111 sets \<^verbatim>\<open>demo_candidates\<close> to \<^verbatim>\<open>None\<close>.
\<close>

definition compile_optimize ::
  "('p, 'e, 'i, 'd, 'r) base \<Rightarrow> ref \<Rightarrow> 'e args \<Rightarrow> 'e locals
     \<Rightarrow> (ref, ('p, 'r) world \<times> ('e, 'i, 'd, 'r) event list) stmt" where
  "compile_optimize h student a l =
     then_do (deepcopy student) (\<lambda>program.
     then_do (new_Evaluate (l_valset l)) (\<lambda>evaluate.
     let demo_candidates = None in
     compile_propose_and_search h a l program evaluate demo_candidates))"

text \<open>
  \<^verbatim>\<open>compile\<close>: the setup, the minibatch check of lines 78 to 81, the confirmation of
  lines 84 to 95 with its early return of the student, and the optimization.
\<close>

definition compile ::
  "('p, 'e, 'i, 'd, 'r) base \<Rightarrow> ref \<Rightarrow> 'e args
     \<Rightarrow> (ref, ('p, 'r) world \<times> ('e, 'i, 'd, 'r) event list) stmt" where
  "compile h student a =
     then_do (compile_setup h student a) (\<lambda>l.
     if l_minibatch l \<and> minibatch_size a > int (length (l_valset l))
     then raise (PyException ''ValueError''
            (''Minibatch size cannot exceed the size of the valset. Valset size: ''
               @ str_nat (length (l_valset l)) @ ''.''))
     else if requires_permission_to_run a
     then then_do (do_get_user_confirmation h student (l_num_trials l) (l_minibatch l)
                     (minibatch_size a) (minibatch_full_eval_steps a) (l_valset l)
                     (program_aware_proposer a)) (\<lambda>confirmed.
          if \<not> confirmed
          then then_do (emit (Logger_info ''Compilation aborted by the user.'')) (\<lambda>_.
               return student)
          else compile_optimize h student a l)
     else compile_optimize h student a l)"

subsection \<open>Reading the events\<close>

text \<open>
  The evaluator exists from its construction at line 99 and is handed to
  \<^verbatim>\<open>_optimize_prompt_parameters\<close> alone, where the trials run.
\<close>

fun uses_evaluator :: "('e, 'i, 'd, 'r) event \<Rightarrow> bool" where
  "uses_evaluator (Evaluate_created ev) = True"
| "uses_evaluator (Call_optimize_prompt_parameters p ic dc ev vs n mb mbs steps sd) = True"
| "uses_evaluator _ = False"

text \<open>
  Whether an event hands a pool of demo candidates to the search: only a call of
  \<^verbatim>\<open>_optimize_prompt_parameters\<close> whose \<^verbatim>\<open>demo_candidates\<close> is not \<^verbatim>\<open>None\<close> does.
\<close>

fun passes_demos :: "('e, 'i, 'd, 'r) event \<Rightarrow> bool" where
  "passes_demos (Call_optimize_prompt_parameters p ic dc ev vs n mb mbs steps sd) = (dc \<noteq> None)"
| "passes_demos _ = False"

text \<open>
  Whether an event that takes a seed (the seeding of the random number generators, the
  search) was given the seed \<open>sd\<close>; other events take none.
\<close>

fun seeded_with :: "int option \<Rightarrow> ('e, 'i, 'd, 'r) event \<Rightarrow> bool" where
  "seeded_with sd (Call_set_random_seeds sd') = (sd' = sd)"
| "seeded_with sd (Call_optimize_prompt_parameters p ic dc ev vs n mb mbs steps sd') = (sd' = sd)"
| "seeded_with sd _ = True"

text \<open>
  The two attributes \<^verbatim>\<open>compile\<close> overwrites are the same in two worlds; a base class
  keeps them when none of its methods writes them.
\<close>

definition same_max_demos :: "('p, 'r) world \<Rightarrow> ('p, 'r) world \<Rightarrow> bool" where
  "same_max_demos w w' =
     (self_max_bootstrapped_demos w' = self_max_bootstrapped_demos w
      \<and> self_max_labeled_demos w' = self_max_labeled_demos w)"

definition keeps_max_demos :: "('p, 'e, 'i, 'd, 'r) base \<Rightarrow> bool" where
  "keeps_max_demos h =
     ((\<forall>sd w. same_max_demos w (snd (set_random_seeds h sd w)))
      \<and> (\<forall>ts vs w. same_max_demos w (snd (set_and_validate_datasets h ts vs w)))
      \<and> (\<forall>p n mb zs vs w.
            same_max_demos w (snd (set_hyperparams_from_run_mode h p n mb zs vs w)))
      \<and> (\<forall>n mb vs w. same_max_demos w (snd (print_auto_run_settings h n mb vs w)))
      \<and> (\<forall>p n mb mbs steps vs aware w.
            same_max_demos w (snd (get_user_confirmation h p n mb mbs steps vs aware w)))
      \<and> (\<forall>p ts dc view pa da ta fa w.
            same_max_demos w (snd (propose_instructions h p ts dc view pa da ta fa w)))
      \<and> (\<forall>p ic dc ev vs n mb mbs steps sd w.
            same_max_demos w (snd (optimize_prompt_parameters h p ic dc ev vs n mb mbs steps sd w))))"

text \<open>The value an attribute has once lines 58 to 62 have run.\<close>

fun overridden :: "int option \<Rightarrow> int \<Rightarrow> int" where
  "overridden None current = current"
| "overridden (Some n) current = n"

text \<open>
  Program objects across a step. \<open>untouched w w'\<close>: every program object of \<open>w\<close> is in
  \<open>w'\<close> as it was, and \<open>w'\<close> may hold new ones. \<open>touched_at_most p w w'\<close>: the same, but
  the object behind \<open>p\<close> may have changed.
\<close>

definition untouched :: "('p, 'r) world \<Rightarrow> ('p, 'r) world \<Rightarrow> bool" where
  "untouched w w' = (take (length (programs w)) (programs w') = programs w)"

definition touched_at_most :: "ref \<Rightarrow> ('p, 'r) world \<Rightarrow> ('p, 'r) world \<Rightarrow> bool" where
  "touched_at_most p w w' =
     (length (programs w) \<le> length (programs w')
      \<and> (\<forall>i < length (programs w). i \<noteq> p \<longrightarrow> programs w' ! i = programs w ! i))"

text \<open>
  The frame of the base class: \<^verbatim>\<open>_propose_instructions\<close> and
  \<^verbatim>\<open>_optimize_prompt_parameters\<close> change no program object but the one they are given,
  and the other methods change none.
\<close>

definition base_frame :: "('p, 'e, 'i, 'd, 'r) base \<Rightarrow> bool" where
  "base_frame h =
     ((\<forall>sd w. untouched w (snd (set_random_seeds h sd w)))
      \<and> (\<forall>ts vs w. untouched w (snd (set_and_validate_datasets h ts vs w)))
      \<and> (\<forall>p n mb zs vs w.
            untouched w (snd (set_hyperparams_from_run_mode h p n mb zs vs w)))
      \<and> (\<forall>n mb vs w. untouched w (snd (print_auto_run_settings h n mb vs w)))
      \<and> (\<forall>p n mb mbs steps vs aware w.
            untouched w (snd (get_user_confirmation h p n mb mbs steps vs aware w)))
      \<and> (\<forall>p ts dc view pa da ta fa w.
            touched_at_most p w (snd (propose_instructions h p ts dc view pa da ta fa w)))
      \<and> (\<forall>p ic dc ev vs n mb mbs steps sd w.
            touched_at_most p w
              (snd (optimize_prompt_parameters h p ic dc ev vs n mb mbs steps sd w))))"

text \<open>
  Whether the program an event proposes instructions for or searches over is an object
  created after the first \<open>n\<close>; other events work on no program.
\<close>

fun works_on_new :: "nat \<Rightarrow> ('e, 'i, 'd, 'r) event \<Rightarrow> bool" where
  "works_on_new k (Call_propose_instructions p ts dc view pa da ta fa) = (k \<le> p)"
| "works_on_new k (Call_optimize_prompt_parameters p ic dc ev vs n mb mbs steps sd) = (k \<le> p)"
| "works_on_new k _ = True"

text \<open>
  A statement is quiet when it changes no program object that exists when it starts.
\<close>

definition quiet :: "('a, ('p, 'r) world \<times> 'l) stmt \<Rightarrow> bool" where
  "quiet m = (\<forall>s r s'. m s = (r, s') \<longrightarrow> untouched (fst s) (fst s'))"

subsection \<open>The search space\<close>





subsection \<open>An example base class and call\<close>

text \<open>
  A base class for concrete runs: its methods return at once, the run mode leaves the
  hyperparameters as they are, the confirmation answers as told, and the search
  rewrites the program it is given and returns it.
\<close>

definition example_base :: "bool \<Rightarrow> (nat, nat, nat, nat, unit) base" where
  "example_base answer =
     \<lparr>set_random_seeds = (\<lambda>sd w. (Inr (), w)),
      set_and_validate_datasets =
        (\<lambda>ts vs w. (Inr (ts, case vs of None \<Rightarrow> ts | Some v \<Rightarrow> v), w)),
      set_hyperparams_from_run_mode = (\<lambda>p n mb zs vs w. (Inr (n, vs, mb), w)),
      print_auto_run_settings = (\<lambda>n mb vs w. (Inr (), w)),
      get_user_confirmation = (\<lambda>p n mb mbs steps vs aware w. (Inr answer, w)),
      propose_instructions = (\<lambda>p ts dc view pa da ta fa w. (Inr 0, w)),
      optimize_prompt_parameters =
        (\<lambda>p ic dc ev vs n mb mbs steps sd w. (Inr p, w\<lparr>programs := (programs w)[p := 1]\<rparr>))\<rparr>"

text \<open>The default arguments of \<^verbatim>\<open>compile\<close>, with a validation set of five examples.\<close>

definition example_args :: "nat args" where
  "example_args =
     \<lparr>trainset = [10, 11], teacher = None, valset = Some [1, 2, 3, 4, 5], num_trials = 30,
      max_bootstrapped_demos = None, max_labeled_demos = None, seed = None,
      minibatch = True, minibatch_size = 25, minibatch_full_eval_steps = 10,
      program_aware_proposer = True, data_aware_proposer = True, view_data_batch_size = 10,
      tip_aware_proposer = True, fewshot_aware_proposer = True,
      requires_permission_to_run = True\<rparr>"

definition example_world :: "(nat, unit) world" where
  "example_world =
     \<lparr>self_seed = Some 9, self_max_bootstrapped_demos = 4, self_max_labeled_demos = 4,
      self_auto = None, self_other = (), programs = [0]\<rparr>"



text \<open>
  The example base class with a seeding that rejects a negative seed.
\<close>

definition strict_seed_base :: "bool \<Rightarrow> (nat, nat, nat, nat, unit) base" where
  "strict_seed_base answer =
     (example_base answer)
       \<lparr>set_random_seeds :=
          (\<lambda>sd w. case sd of
                     None \<Rightarrow> (Inr (), w)
                   | Some n \<Rightarrow>
                       if n < 0
                       then (Inl (PyException ''ValueError''
                                    ''Seed must be between 0 and 2**32 - 1''), w)
                       else (Inr (), w))\<rparr>"

section \<open>Properties of the Langfuse callback\<close>

lemma fun_upd_None_idem: "m k = None \<Longrightarrow> m(k := None) = m"
  by (rule ext) simp

text \<open>
  Claim C7, as amended. An end event whose call id has a recorded observation (every LM
  call, and every nested module call) ends that observation with the outputs, with level
  \<^verbatim>\<open>"ERROR"\<close> and status message \<^verbatim>\<open>str(exception)\<close> when an exception was passed, and
  with level \<^verbatim>\<open>"DEFAULT"\<close> and no status message when none was. The end event of a
  top-level module (its call id is recorded as a trace only) updates the trace with the
  outputs alone: neither level nor status message is recorded for it.
\<close>

theorem end_event_status:
  "(observations cb cid = Some ob \<longrightarrow>
      on_module_end cid mouts exc cb =
        (None, cb\<lparr>observations := (observations cb)(cid := None),
                  calls := calls cb @
                    [ObservationEnd ob (module_output mouts)
                       (if exc = None then ''DEFAULT'' else ''ERROR'') (map_option str_exception exc)]\<rparr>)
      \<and> on_lm_end cid louts exc cb =
        (None, cb\<lparr>traces := (traces cb)(cid := None),
                  observations := (observations cb)(cid := None),
                  calls := calls cb @
                    (case traces cb cid of None \<Rightarrow> [] | Some tr \<Rightarrow> [TraceUpdate tr louts]) @
                    [ObservationEnd ob louts
                       (if exc = None then ''DEFAULT'' else ''ERROR'') (map_option str_exception exc)]\<rparr>))
   \<and> (observations cb cid = None \<and> traces cb cid = Some tr \<longrightarrow>
      on_module_end cid mouts exc cb =
        (None, cb\<lparr>traces := (traces cb)(cid := None),
                  calls := calls cb @ [TraceUpdate tr (module_output mouts)]\<rparr>))"
  by (auto simp: on_module_end_def on_lm_end_def get_observation_status_def fun_upd_None_idem
           split: option.splits)

theorem end_event_status_witness:
  "on_module_end ''c2'' (Some (HasStore (7::nat))) (Some (PyException ''ValueError'' ''bad''))
      \<lparr>session_id = ''dspy-s'', traces = [''p'' \<mapsto> TraceH ''p''],
        observations = [''c2'' \<mapsto> SpanH ''span-c2''], calls = []\<rparr>
    = (None, \<lparr>session_id = ''dspy-s'', traces = [''p'' \<mapsto> TraceH ''p''],
        observations = [''c2'' \<mapsto> SpanH ''span-c2''](''c2'' := None),
        calls = [ObservationEnd (SpanH ''span-c2'') (Some 7) ''ERROR'' (Some ''bad'')]\<rparr>)
   \<and> calls (snd (on_lm_end ''c1'' (Some (7::nat)) None
      \<lparr>session_id = ''dspy-s'', traces = [''c1'' \<mapsto> TraceH ''c1''],
        observations = [''c1'' \<mapsto> GenerationH ''generation-c1''], calls = []\<rparr>))
    = [TraceUpdate (TraceH ''c1'') (Some 7),
       ObservationEnd (GenerationH ''generation-c1'') (Some 7) ''DEFAULT'' None]
   \<and> calls (snd (on_module_end ''c1'' (Some (NoStore (7::nat))) (Some (PyException ''ValueError'' ''bad''))
      \<lparr>session_id = ''dspy-s'', traces = [''c1'' \<mapsto> TraceH ''c1''],
        observations = Map.empty, calls = []\<rparr>))
    = [TraceUpdate (TraceH ''c1'') (Some 7)]"
  using
    end_event_status [where cb = "\<lparr>session_id = ''dspy-s'', traces = [''p'' \<mapsto> TraceH ''p''], observations = [''c2'' \<mapsto> SpanH ''span-c2''], calls = []\<rparr>"
      and cid = "''c2''" and ob = "SpanH ''span-c2''" and mouts = "Some (HasStore (7::nat))" and louts = "Some (7::nat)" and exc = "Some (PyException ''ValueError'' ''bad'')" and tr = "TraceH ''p''"]
    end_event_status [where cb = "\<lparr>session_id = ''dspy-s'', traces = [''c1'' \<mapsto> TraceH ''c1''], observations = [''c1'' \<mapsto> GenerationH ''generation-c1''], calls = []\<rparr>"
      and cid = "''c1''" and ob = "GenerationH ''generation-c1''" and mouts = "Some (HasStore (7::nat))" and louts = "Some (7::nat)" and exc = "None" and tr = "TraceH ''c1''"]
    end_event_status [where cb = "\<lparr>session_id = ''dspy-s'', traces = [''c1'' \<mapsto> TraceH ''c1''], observations = Map.empty, calls = []\<rparr>"
      and cid = "''c1''" and ob = "GenerationH ''generation-c1''" and mouts = "Some (NoStore (7::nat))" and louts = "Some (7::nat)" and exc = "Some (PyException ''ValueError'' ''bad'')" and tr = "TraceH ''c1''"]
  by simp

text \<open>
  The claim as stated covers every module end event. A top-level module that failed with
  an exception is a counterexample: the only calls Langfuse receives are the creation of
  the trace and its update with the output; no observation is ended and the exception
  is recorded nowhere.
\<close>

theorem end_event_status_counterexample:
  "on_module_end ''c1'' None (Some (PyException ''RuntimeError'' ''boom''))
      (on_module_start None ''c1'' ''Program'' (0::nat)
         \<lparr>session_id = ''dspy-s'', traces = Map.empty, observations = Map.empty, calls = []\<rparr>)
    = (None, \<lparr>session_id = ''dspy-s'', traces = [''c1'' \<mapsto> TraceH ''c1''](''c1'' := None),
              observations = Map.empty,
              calls = [TraceCreate ''Program'' ''c1'' ''dspy-s'' 0, TraceUpdate (TraceH ''c1'') None]\<rparr>)"
  by (simp add: on_module_end_def on_module_start_def get_observation_status_def)

text \<open>
  Claim C8. A start event reads the parent call id from the ambient context. When that
  id has neither a recorded trace nor a recorded observation, a root trace is created
  under the caller's call id (an LM start event then also creates its generation under
  that new trace). Otherwise a span (for a module) or a generation (for an LM) is created
  under the parent: the parent's observation when it has one, else the parent's trace.
\<close>

theorem start_event_parent_resolution:
  "(dict_get (traces cb) amb = None \<and> dict_get (observations cb) amb = None \<longrightarrow>
      on_module_start amb cid nm inp cb =
        cb\<lparr>calls := calls cb @ [TraceCreate nm cid (session_id cb) inp],
           traces := (traces cb)(cid \<mapsto> TraceH cid)\<rparr>
      \<and> on_lm_start amb cid nm mdl inp cb =
        cb\<lparr>calls := calls cb @ [TraceCreate nm cid (session_id cb) inp,
                GenerationCreate (TraceH cid) nm (''generation-'' @ cid) inp mdl],
           traces := (traces cb)(cid \<mapsto> TraceH cid),
           observations := (observations cb)(cid \<mapsto> GenerationH (''generation-'' @ cid))\<rparr>)
   \<and> ((dict_get (observations cb) amb = Some parent
        \<or> (dict_get (observations cb) amb = None \<and> dict_get (traces cb) amb = Some parent)) \<longrightarrow>
      on_module_start amb cid nm inp cb =
        cb\<lparr>calls := calls cb @ [SpanCreate parent nm (''span-'' @ cid) inp],
           observations := (observations cb)(cid \<mapsto> SpanH (''span-'' @ cid))\<rparr>
      \<and> on_lm_start amb cid nm mdl inp cb =
        cb\<lparr>calls := calls cb @ [GenerationCreate parent nm (''generation-'' @ cid) inp mdl],
           observations := (observations cb)(cid \<mapsto> GenerationH (''generation-'' @ cid))\<rparr>)"
  by (cases "dict_get (traces cb) amb"; cases "dict_get (observations cb) amb")
     (simp_all add: on_module_start_def on_lm_start_def)

theorem start_event_parent_resolution_witness:
  "on_module_start None ''c1'' ''Program'' (0::nat)
      \<lparr>session_id = ''dspy-s'', traces = Map.empty, observations = Map.empty, calls = []\<rparr>
    = \<lparr>session_id = ''dspy-s'', traces = [''c1'' \<mapsto> TraceH ''c1''], observations = Map.empty,
        calls = [TraceCreate ''Program'' ''c1'' ''dspy-s'' 0]\<rparr>
   \<and> calls (on_lm_start None ''c1'' ''LM'' ''gpt'' (0::nat)
      \<lparr>session_id = ''dspy-s'', traces = Map.empty, observations = Map.empty, calls = []\<rparr>)
    = [TraceCreate ''LM'' ''c1'' ''dspy-s'' 0,
       GenerationCreate (TraceH ''c1'') ''LM'' ''generation-c1'' 0 ''gpt'']
   \<and> calls (on_module_start (Some ''p'') ''c2'' ''Predict'' (0::nat)
      \<lparr>session_id = ''dspy-s'', traces = [''p'' \<mapsto> TraceH ''p''],
        observations = [''p'' \<mapsto> SpanH ''span-p''], calls = []\<rparr>)
    = [SpanCreate (SpanH ''span-p'') ''Predict'' ''span-c2'' 0]
   \<and> calls (on_lm_start (Some ''p'') ''c2'' ''LM'' ''gpt'' (0::nat)
      \<lparr>session_id = ''dspy-s'', traces = [''p'' \<mapsto> TraceH ''p''],
        observations = Map.empty, calls = []\<rparr>)
    = [GenerationCreate (TraceH ''p'') ''LM'' ''generation-c2'' 0 ''gpt'']"
  using
    start_event_parent_resolution [where cb = "\<lparr>session_id = ''dspy-s'', traces = Map.empty, observations = Map.empty, calls = []\<rparr>"
      and amb = "None" and cid = "''c1''" and nm = "''Program''" and inp = "0::nat" and mdl = "''gpt''" and parent = "TraceH ''p''"]
    start_event_parent_resolution [where cb = "\<lparr>session_id = ''dspy-s'', traces = Map.empty, observations = Map.empty, calls = []\<rparr>"
      and amb = "None" and cid = "''c1''" and nm = "''LM''" and inp = "0::nat" and mdl = "''gpt''" and parent = "TraceH ''p''"]
    start_event_parent_resolution [where cb = "\<lparr>session_id = ''dspy-s'', traces = [''p'' \<mapsto> TraceH ''p''], observations = [''p'' \<mapsto> SpanH ''span-p''], calls = []\<rparr>"
      and amb = "Some ''p''" and cid = "''c2''" and nm = "''Predict''" and inp = "0::nat" and mdl = "''gpt''" and parent = "SpanH ''span-p''"]
    start_event_parent_resolution [where cb = "\<lparr>session_id = ''dspy-s'', traces = [''p'' \<mapsto> TraceH ''p''], observations = Map.empty, calls = []\<rparr>"
      and amb = "Some ''p''" and cid = "''c2''" and nm = "''LM''" and inp = "0::nat" and mdl = "''gpt''" and parent = "TraceH ''p''"]
  by simp

section \<open>Properties of compile\<close>

lemmas stmt_defs = return_def raise_def then_do_def attr_def assign_def emit_def call_def

lemmas call_defs = do_set_random_seeds_def do_set_and_validate_datasets_def
  do_set_hyperparams_from_run_mode_def do_print_auto_run_settings_def
  do_get_user_confirmation_def do_propose_instructions_def do_optimize_prompt_parameters_def
  deepcopy_def new_Evaluate_def

lemmas example_defs = example_base_def example_args_def example_world_def


subsection \<open>Running statements step by step\<close>

lemma then_doE:
  assumes "then_do m f s = (r, s')"
  obtains (raised) e where "m s = (Inl e, s')" and "r = Inl e"
  | (returned) x s1 where "m s = (Inr x, s1)" and "f x s1 = (r, s')"
  using assms unfolding then_do_def
  by (cases "m s"; cases "fst (m s)") auto

lemma callE:
  assumes "call ev f s = (r, s')"
  obtains w' where "f (fst s) = (r, w')" and "s' = (w', snd s @ [ev])"
  using assms unfolding call_def by (cases "f (fst s)") auto

lemma then_do_returned: "m s = (Inr x, s1) \<Longrightarrow> then_do m f s = f x s1"
  by (simp add: then_do_def)

lemma compile_setup_events:
  assumes "compile_setup h student a s = (r, s')"
  shows "\<exists>evs. snd s' = snd s @ evs \<and> \<not> list_ex uses_evaluator evs"
  using assms unfolding compile_setup_def Let_def call_defs
  by (auto simp: attr_def return_def assign_def elim!: then_doE callE
           split: option.splits if_splits prod.splits)

subsection \<open>The events of a call\<close>

lemma compile_optimize_events:
  assumes "compile_optimize h student a l s = (r, s')"
  shows "\<exists>evs. snd s' = snd s @ evs \<and> \<not> list_ex passes_demos evs
           \<and> list_all (seeded_with (l_seed l)) evs"
  using assms unfolding compile_optimize_def compile_propose_and_search_def Let_def call_defs
  by (auto simp: attr_def return_def assign_def elim!: then_doE callE
           split: option.splits if_splits prod.splits)

lemma compile_setup_events2:
  assumes "compile_setup h student a (w, tr) = (r, s')"
  shows "\<exists>evs. snd s' = tr @ Call_set_random_seeds (seed_or (seed a) (self_seed w)) # evs
           \<and> \<not> list_ex passes_demos evs
           \<and> list_all (seeded_with (seed_or (seed a) (self_seed w))) evs
           \<and> (\<forall>l. r = Inr l \<longrightarrow> l_seed l = seed_or (seed a) (self_seed w))"
  using assms unfolding compile_setup_def Let_def call_defs
  by (auto simp: attr_def return_def assign_def elim!: then_doE callE
           split: option.splits if_splits prod.splits)

lemma compile_events:
  assumes "compile h student a (w, tr) = (r, s')"
  shows "\<exists>evs. snd s' = tr @ Call_set_random_seeds (seed_or (seed a) (self_seed w)) # evs
           \<and> \<not> list_ex passes_demos evs
           \<and> list_all (seeded_with (seed_or (seed a) (self_seed w))) evs"
proof -
  let ?sd = "seed_or (seed a) (self_seed w)"
  from assms show ?thesis
    unfolding compile_def
  proof (cases rule: then_doE)
    case (raised e)
    with compile_setup_events2 [OF raised(1)] show ?thesis by auto
  next
    case (returned l s1)
    from compile_setup_events2 [OF returned(1)] obtain evs1 where
      s1: "snd s1 = tr @ Call_set_random_seeds ?sd # evs1"
      and d1: "\<not> list_ex passes_demos evs1"
      and k1: "list_all (seeded_with ?sd) evs1"
      and l: "l_seed l = ?sd" by auto
    have opt: "\<exists>evs. snd s' = tr @ Call_set_random_seeds ?sd # evs
           \<and> \<not> list_ex passes_demos evs \<and> list_all (seeded_with ?sd) evs"
      if "compile_optimize h student a l s2 = (r, s')"
        and "snd s2 = tr @ Call_set_random_seeds ?sd # evs2"
        and "\<not> list_ex passes_demos evs2" and "list_all (seeded_with ?sd) evs2"
      for s2 evs2
      using compile_optimize_events [OF that(1)] that(2-) l by auto
    from returned(2) show ?thesis
      using s1 d1 k1 opt
      by (auto simp: raise_def emit_def return_def do_get_user_confirmation_def
            elim!: then_doE callE split: if_splits)
  qed
qed

subsection \<open>Program objects across a call\<close>

lemma base_frameD:
  assumes "base_frame h"
  shows "set_random_seeds h sd w = (r1, w') \<Longrightarrow> untouched w w'"
    and "set_and_validate_datasets h ts vo w = (r2, w') \<Longrightarrow> untouched w w'"
    and "set_hyperparams_from_run_mode h p n mb zs vs w = (r3, w') \<Longrightarrow> untouched w w'"
    and "print_auto_run_settings h n mb vs w = (r4, w') \<Longrightarrow> untouched w w'"
    and "get_user_confirmation h p n mb mbs steps vs aware w = (r5, w') \<Longrightarrow> untouched w w'"
    and "propose_instructions h p ts dc view pa da ta fa w = (r6, w') \<Longrightarrow> touched_at_most p w w'"
    and "optimize_prompt_parameters h p ic dc ev vs n mb mbs steps sd w = (r7, w')
           \<Longrightarrow> touched_at_most p w w'"
  using assms unfolding base_frame_def by (metis snd_conv)+

lemma untouched_refl: "untouched w w"
  by (simp add: untouched_def)

lemma untouched_trans: "untouched w0 w1 \<Longrightarrow> untouched w1 w2 \<Longrightarrow> untouched w0 w2"
  unfolding untouched_def
  by (metis length_take min.absorb2 nat_le_linear take_all_iff take_take)

lemma untouched_length: "untouched w0 w1 \<Longrightarrow> length (programs w0) \<le> length (programs w1)"
  unfolding untouched_def by (metis length_take min.cobounded1)

lemma untouched_nth:
  "untouched w0 w1 \<Longrightarrow> i < length (programs w0) \<Longrightarrow> programs w1 ! i = programs w0 ! i"
  unfolding untouched_def by (metis nth_take)

lemma untouched_touched:
  assumes "untouched w0 w1" and "touched_at_most p w1 w2" and "length (programs w0) \<le> p"
  shows "untouched w0 w2"
proof -
  have len: "length (programs w0) \<le> length (programs w1)"
    using assms(1) by (rule untouched_length)
  have "take (length (programs w0)) (programs w2) = programs w0"
  proof (rule nth_equalityI)
    show "length (take (length (programs w0)) (programs w2)) = length (programs w0)"
      using len assms(2) by (simp add: touched_at_most_def)
  next
    fix i assume "i < length (take (length (programs w0)) (programs w2))"
    then have i: "i < length (programs w0)" by simp
    then have "programs w2 ! i = programs w1 ! i"
      using assms(2,3) len by (simp add: touched_at_most_def)
    also have "\<dots> = programs w0 ! i"
      using assms(1) i by (rule untouched_nth)
    finally show "take (length (programs w0)) (programs w2) ! i = programs w0 ! i"
      using i by simp
  qed
  then show ?thesis by (simp add: untouched_def)
qed

lemma untouched_iff: "untouched w w' \<longleftrightarrow> (\<exists>new. programs w' = programs w @ new)"
proof
  assume "untouched w w'"
  then have "programs w' = programs w @ drop (length (programs w)) (programs w')"
    unfolding untouched_def by (metis append_take_drop_id)
  then show "\<exists>new. programs w' = programs w @ new" ..
next
  assume "\<exists>new. programs w' = programs w @ new"
  then show "untouched w w'" by (auto simp: untouched_def)
qed

lemma works_on_new_mono: "k \<le> k' \<Longrightarrow> works_on_new k' ev \<Longrightarrow> works_on_new k ev"
  by (cases ev) auto

lemma list_all_works_on_new_mono:
  "k \<le> k' \<Longrightarrow> list_all (works_on_new k') evs \<Longrightarrow> list_all (works_on_new k) evs"
  by (induction evs) (auto intro: works_on_new_mono)

lemma quietD: "quiet m \<Longrightarrow> m (w, tr) = (r, (w', tr')) \<Longrightarrow> untouched w w'"
  unfolding quiet_def by fastforce

lemma quiet_return: "quiet (return x)"
  by (simp add: quiet_def return_def untouched_refl)

lemma quiet_raise: "quiet (raise e)"
  by (simp add: quiet_def raise_def untouched_refl)

lemma quiet_attr: "quiet (attr g)"
  by (simp add: quiet_def attr_def untouched_refl)

lemma quiet_emit: "quiet (emit ev)"
  by (simp add: quiet_def emit_def untouched_refl)

lemma quiet_assign: "(\<And>w. programs (g w) = programs w) \<Longrightarrow> quiet (assign g)"
  by (simp add: quiet_def assign_def untouched_def)

lemma quiet_call: "(\<And>w r w'. f w = (r, w') \<Longrightarrow> untouched w w') \<Longrightarrow> quiet (call ev f)"
  unfolding quiet_def by (auto elim!: callE)

lemma quiet_then_do:
  assumes "quiet m" and "\<And>x. quiet (f x)"
  shows "quiet (then_do m f)"
  unfolding quiet_def
proof (intro allI impI)
  fix s r s' assume "then_do m f s = (r, s')"
  then show "untouched (fst s) (fst s')"
  proof (cases rule: then_doE)
    case (raised e)
    with assms(1) show ?thesis unfolding quiet_def by blast
  next
    case (returned x s1)
    from assms(1) returned(1) have "untouched (fst s) (fst s1)"
      unfolding quiet_def by blast
    moreover from assms(2) returned(2) have "untouched (fst s1) (fst s')"
      unfolding quiet_def by blast
    ultimately show ?thesis by (rule untouched_trans)
  qed
qed

lemma quiet_if: "quiet m1 \<Longrightarrow> quiet m2 \<Longrightarrow> quiet (if c then m1 else m2)"
  by simp

lemma quiet_case_option:
  "quiet m1 \<Longrightarrow> (\<And>x. quiet (m2 x)) \<Longrightarrow> quiet (case v of None \<Rightarrow> m1 | Some x \<Rightarrow> m2 x)"
  by (cases v) simp_all

lemma quiet_case_prod: "(\<And>x y. quiet (f x y)) \<Longrightarrow> quiet (case p of (x, y) \<Rightarrow> f x y)"
  by (cases p) simp

lemma compile_setup_quiet:
  assumes "base_frame h"
  shows "quiet (compile_setup h student a)"
  unfolding compile_setup_def Let_def call_defs
  by (intro quiet_then_do quiet_attr quiet_return quiet_case_option quiet_case_prod quiet_if
        quiet_assign quiet_call)
     (auto dest: base_frameD [OF assms])

lemma compile_setup_works_on_new:
  assumes "compile_setup h student a s = (r, s')"
  shows "\<exists>evs. snd s' = snd s @ evs \<and> list_all (works_on_new k) evs"
  using assms unfolding compile_setup_def Let_def call_defs
  by (auto simp: attr_def return_def assign_def elim!: then_doE callE
           split: option.splits if_splits prod.splits)

lemma compile_optimize_frame:
  assumes "base_frame h"
    and "compile_optimize h student a l (w, tr) = (r, (w', tr'))"
  shows "untouched w w'
         \<and> (\<exists>evs. tr' = tr @ evs \<and> list_all (works_on_new (length (programs w))) evs)"
proof -
  let ?k = "length (programs w)"
  let ?wc = "w\<lparr>programs := programs w @ [programs w ! student]\<rparr>"
  have copy: "untouched w ?wc" by (simp add: untouched_iff)
  have step: "untouched w w2"
    if "untouched w w1" and "touched_at_most ?k w1 w2" for w1 w2
    using that by (rule untouched_touched) simp
  have proposed: "untouched w w2"
    if "propose_instructions h ?k ts dc view pa da ta fa ?wc = (r6, w2)"
    for ts dc view pa da ta fa r6 w2
    using copy base_frameD(6) [OF assms(1) that] by (rule step)
  have searched: "untouched w w3"
    if "optimize_prompt_parameters h ?k ic dc ev vs n mb mbs steps sd w2 = (r7, w3)"
      and "untouched w w2"
    for ic dc ev vs n mb mbs steps sd r7 w2 w3
    using that(2) base_frameD(7) [OF assms(1) that(1)] by (rule step)
  from assms(2) show ?thesis
    unfolding compile_optimize_def compile_propose_and_search_def Let_def call_defs
    by (auto simp: return_def copy untouched_refl elim!: then_doE callE
             dest!: proposed dest: searched split: if_splits)
qed

subsection \<open>The overridden attributes across a call\<close>

lemma keeps_max_demosD:
  assumes "keeps_max_demos h"
  shows "set_random_seeds h sd w = (r1, w') \<Longrightarrow> same_max_demos w w'"
    and "set_and_validate_datasets h ts vo w = (r2, w') \<Longrightarrow> same_max_demos w w'"
    and "set_hyperparams_from_run_mode h p n mb zs vs w = (r3, w') \<Longrightarrow> same_max_demos w w'"
    and "print_auto_run_settings h n mb vs w = (r4, w') \<Longrightarrow> same_max_demos w w'"
    and "get_user_confirmation h p n mb mbs steps vs aware w = (r5, w') \<Longrightarrow> same_max_demos w w'"
    and "propose_instructions h p ts dc view pa da ta fa w = (r6, w') \<Longrightarrow> same_max_demos w w'"
    and "optimize_prompt_parameters h p ic dc ev vs n mb mbs steps sd w = (r7, w')
           \<Longrightarrow> same_max_demos w w'"
  using assms unfolding keeps_max_demos_def by (metis snd_conv)+

lemma compile_setup_max_demos:
  assumes "keeps_max_demos h"
    and "set_random_seeds h (seed_or (seed a) (self_seed w)) w = (Inr (), w1)"
    and "compile_setup h student a (w, tr) = (r, (w', tr'))"
  shows "self_max_bootstrapped_demos w'
           = overridden (max_bootstrapped_demos a) (self_max_bootstrapped_demos w)
         \<and> self_max_labeled_demos w'
           = overridden (max_labeled_demos a) (self_max_labeled_demos w)
         \<and> (\<forall>l. r = Inr l \<longrightarrow>
               l_zeroshot_opt l
                 = (overridden (max_bootstrapped_demos a) (self_max_bootstrapped_demos w) = 0
                    \<and> overridden (max_labeled_demos a) (self_max_labeled_demos w) = 0))"
  using assms(3) keeps_max_demosD(1) [OF assms(1,2)]
  unfolding compile_setup_def Let_def call_defs
  by (auto simp: attr_def return_def assign_def same_max_demos_def assms(2)
           elim!: then_doE callE dest!: keeps_max_demosD(2-) [OF assms(1)]
           split: option.splits if_splits prod.splits)


lemma compile_optimize_max_demos:
  assumes "keeps_max_demos h"
    and "compile_optimize h student a l (w, tr) = (r, (w', tr'))"
  shows "same_max_demos w w'"
  using assms(2) unfolding compile_optimize_def compile_propose_and_search_def Let_def call_defs
  by (auto simp: return_def same_max_demos_def
           elim!: then_doE callE dest!: keeps_max_demosD [OF assms(1)]
           split: if_splits)

subsection \<open>Zero-shot mode\<close>




text \<open>
  Lines 118 to 148 call the proposer with the demo candidates they were given, and the
  search, when the proposer returned, with \<^verbatim>\<open>None\<close> in zero-shot mode and with the same
  demo candidates otherwise.
\<close>

lemma compile_propose_and_search_events:
  assumes "compile_propose_and_search h a l program evaluate dc0 s = (r, s')"
  shows "\<exists>rest. snd s' = snd s @ Call_propose_instructions program (l_trainset l) dc0
                     (view_data_batch_size a) (program_aware_proposer a)
                     (data_aware_proposer a) (tip_aware_proposer a)
                     (fewshot_aware_proposer a) # rest
           \<and> (l_zeroshot_opt l \<longrightarrow> \<not> list_ex passes_demos rest)
           \<and> (\<forall>best. r = Inr best \<longrightarrow>
                (\<exists>ic. rest = [Call_optimize_prompt_parameters program ic
                                (if l_zeroshot_opt l then None else dc0) evaluate (l_valset l)
                                (l_num_trials l) (l_minibatch l) (minibatch_size a)
                                (minibatch_full_eval_steps a) (l_seed l)]))"
  using assms unfolding compile_propose_and_search_def Let_def
proof (cases rule: then_doE)
  case (raised e)
  from raised(1) have "snd s' = snd s @ [Call_propose_instructions program (l_trainset l) dc0
                     (view_data_batch_size a) (program_aware_proposer a)
                     (data_aware_proposer a) (tip_aware_proposer a)
                     (fewshot_aware_proposer a)]"
    unfolding do_propose_instructions_def by (elim callE) simp
  with raised(2) show ?thesis by simp
next
  case (returned ic s1)
  from returned(1) have s1: "snd s1 = snd s @ [Call_propose_instructions program (l_trainset l) dc0
                     (view_data_batch_size a) (program_aware_proposer a)
                     (data_aware_proposer a) (tip_aware_proposer a)
                     (fewshot_aware_proposer a)]"
    unfolding do_propose_instructions_def by (elim callE) simp
  from returned(2) show ?thesis
  proof (cases rule: then_doE)
    case (raised e)
    from raised(1) have "snd s' = snd s1 @ [Call_optimize_prompt_parameters program ic
                                (if l_zeroshot_opt l then None else dc0) evaluate (l_valset l)
                                (l_num_trials l) (l_minibatch l) (minibatch_size a)
                                (minibatch_full_eval_steps a) (l_seed l)]"
      unfolding do_optimize_prompt_parameters_def by (elim callE) simp
    with s1 raised(2) show ?thesis by simp
  next
    case (returned best s2)
    from returned(1) have "snd s2 = snd s1 @ [Call_optimize_prompt_parameters program ic
                                (if l_zeroshot_opt l then None else dc0) evaluate (l_valset l)
                                (l_num_trials l) (l_minibatch l) (minibatch_size a)
                                (minibatch_full_eval_steps a) (l_seed l)]"
      unfolding do_optimize_prompt_parameters_def by (elim callE) simp
    moreover from returned(2) have "s' = s2" by (simp add: return_def)
    ultimately show ?thesis using s1 by simp
  qed
qed

lemma few_shot_searches_demos:
  assumes "\<not> l_zeroshot_opt l"
    and "compile_propose_and_search h a l program evaluate dc0 s = (Inr best, s')"
  shows "\<exists>ic. snd s' = snd s @
           [Call_propose_instructions program (l_trainset l) dc0
              (view_data_batch_size a) (program_aware_proposer a)
              (data_aware_proposer a) (tip_aware_proposer a) (fewshot_aware_proposer a),
            Call_optimize_prompt_parameters program ic dc0 evaluate (l_valset l)
              (l_num_trials l) (l_minibatch l) (minibatch_size a)
              (minibatch_full_eval_steps a) (l_seed l)]"
  using compile_propose_and_search_events [OF assms(2)] assms(1) by auto

subsection \<open>The example base class\<close>

lemma example_compile_setup:
  "compile_setup (example_base answer) 0 example_args (example_world, []) =
     (Inr \<lparr>l_seed = Some 9, l_trainset = [10, 11], l_valset = [1, 2, 3, 4, 5],
           l_num_trials = 30, l_minibatch = True, l_zeroshot_opt = False\<rparr>,
      (example_world,
       [Call_set_random_seeds (Some 9),
        Call_set_and_validate_datasets [10, 11] (Some [1, 2, 3, 4, 5]),
        Call_set_hyperparams_from_run_mode 0 30 True False [1, 2, 3, 4, 5]]))"
  by (simp add: compile_setup_def stmt_defs call_defs example_defs)

lemma example_base_frame: "base_frame (example_base answer)"
  by (simp add: base_frame_def untouched_def touched_at_most_def example_base_def)

lemma example_base_keeps_max_demos: "keeps_max_demos (example_base answer)"
  by (simp add: keeps_max_demos_def same_max_demos_def example_base_def)


subsection \<open>The claims about compile\<close>

text \<open>
  Claim C1, as amended. When lines 54 to 76 have run and left \<^verbatim>\<open>minibatch\<close> true and a
  validation set shorter than \<^verbatim>\<open>minibatch_size\<close> (both as
  \<^verbatim>\<open>_set_hyperparams_from_run_mode\<close> returned them), \<^verbatim>\<open>compile\<close> raises \<^verbatim>\<open>ValueError\<close>
  with a message that ends in the size of the validation set. The world and the events
  are those the first lines left: no confirmation was asked, no evaluator was built and
  no trial ran.
\<close>

theorem compile_minibatch_exceeds_valset:
  assumes "compile_setup h student a s = (Inr l, s')"
    and "l_minibatch l"
    and "int (length (l_valset l)) < minibatch_size a"
  shows "compile h student a s =
           (Inl (PyException ''ValueError''
                   (''Minibatch size cannot exceed the size of the valset. Valset size: ''
                      @ str_nat (length (l_valset l)) @ ''.'')), s')
         \<and> (\<exists>evs. snd s' = snd s @ evs \<and> \<not> list_ex uses_evaluator evs)"
  using assms compile_setup_events [OF assms(1)]
  by (simp add: compile_def then_do_returned raise_def)

theorem compile_minibatch_exceeds_valset_witness:
  "compile (example_base True) 0 example_args (example_world, []) =
     (Inl (PyException ''ValueError''
             ''Minibatch size cannot exceed the size of the valset. Valset size: 5.''),
      (example_world,
       [Call_set_random_seeds (Some 9),
        Call_set_and_validate_datasets [10, 11] (Some [1, 2, 3, 4, 5]),
        Call_set_hyperparams_from_run_mode 0 30 True False [1, 2, 3, 4, 5]]))"
  using compile_minibatch_exceeds_valset [OF example_compile_setup [of True]]
  by (simp add: example_args_def str_nat.simps)

text \<open>
  The claim as stated leaves the minibatch flag out. With \<^verbatim>\<open>minibatch=False\<close>, five
  validation examples and the default \<^verbatim>\<open>minibatch_size\<close> of 25, the check of line 78
  does not fire: \<^verbatim>\<open>compile\<close> raises nothing, builds the evaluator and runs the search.
\<close>

theorem compile_minibatch_exceeds_valset_counterexample:
  "valset (example_args\<lparr>minibatch := False\<rparr>) = Some [1, 2, 3, 4, 5]
   \<and> minibatch_size (example_args\<lparr>minibatch := False\<rparr>) = 25
   \<and> compile (example_base True) 0 (example_args\<lparr>minibatch := False\<rparr>) (example_world, []) =
     (Inr 1,
      (example_world\<lparr>programs := [0, 1]\<rparr>,
       [Call_set_random_seeds (Some 9),
        Call_set_and_validate_datasets [10, 11] (Some [1, 2, 3, 4, 5]),
        Call_set_hyperparams_from_run_mode 0 30 False False [1, 2, 3, 4, 5],
        Call_get_user_confirmation 0 30 False 25 10 [1, 2, 3, 4, 5] True,
        Call_deepcopy 0,
        Evaluate_created \<lparr>devset = [1, 2, 3, 4, 5], settings = (),
                           display_table = False, display_progress = True\<rparr>,
        Call_propose_instructions 1 [10, 11] None 10 True True True True,
        Call_optimize_prompt_parameters 1 0 None
          \<lparr>devset = [1, 2, 3, 4, 5], settings = (),
            display_table = False, display_progress = True\<rparr>
          [1, 2, 3, 4, 5] 30 False 25 10 (Some 9)]))"
  by (simp add: compile_def compile_setup_def compile_optimize_def compile_propose_and_search_def stmt_defs call_defs
        example_defs Let_def)






text \<open>
  Claim C6. Provided the methods of the base class keep to their frame (proposal and
  search change no program object but the one they are given, the other methods change
  none), a call of \<^verbatim>\<open>compile\<close> leaves the student as it was, and with it every program
  object that existed before the call: the program handed to \<^verbatim>\<open>_propose_instructions\<close>
  and to \<^verbatim>\<open>_optimize_prompt_parameters\<close> is the deep copy of line 98, an object created
  during the call.
\<close>

theorem student_never_mutated:
  assumes "base_frame h"
    and "student < length (programs w)"
    and "compile h student a (w, tr) = (r, (w', tr'))"
  shows "programs w' ! student = programs w ! student
         \<and> take (length (programs w)) (programs w') = programs w
         \<and> (\<exists>evs. tr' = tr @ evs \<and> list_all (works_on_new (length (programs w))) evs)"
proof -
  let ?k = "length (programs w)"
  have main: "untouched w w' \<and> (\<exists>evs. tr' = tr @ evs \<and> list_all (works_on_new ?k) evs)"
    using assms(3) unfolding compile_def
  proof (cases rule: then_doE)
    case (raised e)
    from quietD [OF compile_setup_quiet [OF assms(1)] raised(1)]
      compile_setup_works_on_new [OF raised(1), of ?k]
    show ?thesis by simp
  next
    case (returned l s1)
    obtain w1 tr1 where s1: "s1 = (w1, tr1)" by (cases s1)
    have u1: "untouched w w1"
      using quietD [OF compile_setup_quiet [OF assms(1)]] returned(1) s1 by blast
    from compile_setup_works_on_new [OF returned(1), of ?k] s1
    obtain evs1 where tr1: "tr1 = tr @ evs1" and e1: "list_all (works_on_new ?k) evs1"
      by auto
    have opt: "untouched w w' \<and> (\<exists>evs. tr' = tr @ evs \<and> list_all (works_on_new ?k) evs)"
      if run: "compile_optimize h student a l (w2, tr1 @ evs2) = (r, (w', tr'))"
        and u2: "untouched w w2" and e2: "list_all (works_on_new ?k) evs2"
      for w2 evs2
    proof -
      from compile_optimize_frame [OF assms(1) run] obtain evs3 where
        u3: "untouched w2 w'" and tr3: "tr' = (tr1 @ evs2) @ evs3"
        and e3: "list_all (works_on_new (length (programs w2))) evs3" by auto
      from u2 have "?k \<le> length (programs w2)" by (rule untouched_length)
      then have "list_all (works_on_new ?k) evs3"
        using e3 by (rule list_all_works_on_new_mono)
      with u2 u3 tr3 tr1 e1 e2 show ?thesis
        by (auto intro: untouched_trans)
    qed
    have opt0: "untouched w w' \<and> (\<exists>evs. tr' = tr @ evs \<and> list_all (works_on_new ?k) evs)"
      if "compile_optimize h student a l (w1, tr1) = (r, (w', tr'))"
      using opt [of w1 "[]"] that u1 by simp
    have asked: "untouched w w2"
      if "get_user_confirmation h student n mb mbs steps vs aware w1 = (r5, w2)"
      for n mb mbs steps vs aware r5 w2
      using u1 base_frameD(5) [OF assms(1) that] by (rule untouched_trans)
    let ?ev = "Call_get_user_confirmation student (l_num_trials l) (l_minibatch l)
         (minibatch_size a) (minibatch_full_eval_steps a) (l_valset l)
         (program_aware_proposer a)"
    show ?thesis
    proof (cases "l_minibatch l \<and> int (length (l_valset l)) < minibatch_size a")
      case True
      with returned(2) s1 u1 tr1 e1 show ?thesis
        by (auto simp: raise_def split: if_splits)
    next
      case fits: False
      show ?thesis
      proof (cases "requires_permission_to_run a")
        case False
        with fits returned(2) s1
        have "compile_optimize h student a l (w1, tr1) = (r, (w', tr'))"
          by (auto split: if_splits)
        then show ?thesis by (rule opt0)
      next
        case True
        with fits returned(2) s1
        have "then_do
           (do_get_user_confirmation h student (l_num_trials l) (l_minibatch l)
             (minibatch_size a) (minibatch_full_eval_steps a) (l_valset l)
             (program_aware_proposer a))
           (\<lambda>confirmed.
               if \<not> confirmed
               then then_do (emit (Logger_info ''Compilation aborted by the user.''))
                     (\<lambda>_. return student)
               else compile_optimize h student a l)
           (w1, tr1) = (r, (w', tr'))" by (auto split: if_splits)
        then show ?thesis
        proof (cases rule: then_doE)
          case (raised e)
          then show ?thesis
            using tr1 e1
            by (auto simp: do_get_user_confirmation_def elim!: callE dest: asked)
        next
          case (returned confirmed s2)
          from returned(1) obtain w2 where
            c: "get_user_confirmation h student (l_num_trials l) (l_minibatch l)
               (minibatch_size a) (minibatch_full_eval_steps a) (l_valset l)
               (program_aware_proposer a) w1 = (Inr confirmed, w2)"
            and s2: "s2 = (w2, tr1 @ [?ev])"
            by (auto simp: do_get_user_confirmation_def elim!: callE)
          have u2: "untouched w w2" using c by (rule asked)
          show ?thesis
          proof (cases confirmed)
            case True
            with returned(2) s2
            have "compile_optimize h student a l (w2, tr1 @ [?ev]) = (r, (w', tr'))"
              by simp
            then show ?thesis using u2 by (rule opt) simp
          next
            case False
            with returned(2) s2 u2 tr1 e1 show ?thesis
              by (auto simp: emit_def return_def elim!: then_doE)
          qed
        qed
      qed
    qed
  qed
  then have "untouched w w'" ..
  from untouched_nth [OF this assms(2)] this main show ?thesis
    by (simp add: untouched_def)
qed

theorem student_never_mutated_witness:
  "compile (example_base True) 0
     (example_args\<lparr>minibatch_size := 5, requires_permission_to_run := False\<rparr>)
     (example_world, []) =
     (Inr 1,
      (example_world\<lparr>programs := [0, 1]\<rparr>,
       [Call_set_random_seeds (Some 9),
        Call_set_and_validate_datasets [10, 11] (Some [1, 2, 3, 4, 5]),
        Call_set_hyperparams_from_run_mode 0 30 True False [1, 2, 3, 4, 5],
        Call_deepcopy 0,
        Evaluate_created \<lparr>devset = [1, 2, 3, 4, 5], settings = (),
                           display_table = False, display_progress = True\<rparr>,
        Call_propose_instructions 1 [10, 11] None 10 True True True True,
        Call_optimize_prompt_parameters 1 0 None
          \<lparr>devset = [1, 2, 3, 4, 5], settings = (),
            display_table = False, display_progress = True\<rparr>
          [1, 2, 3, 4, 5] 30 True 5 10 (Some 9)]))
   \<and> programs example_world = [0]
   \<and> programs (example_world\<lparr>programs := [0, 1]\<rparr>) ! 0 = programs example_world ! 0"
proof -
  let ?a = "example_args\<lparr>minibatch_size := 5, requires_permission_to_run := False\<rparr>"
  let ?tr' = "[Call_set_random_seeds (Some 9),
        Call_set_and_validate_datasets [10, 11] (Some [1, 2, 3, 4, 5]),
        Call_set_hyperparams_from_run_mode 0 30 True False [1, 2, 3, 4, 5],
        Call_deepcopy 0,
        Evaluate_created \<lparr>devset = [1, 2, 3, 4, 5], settings = (),
                           display_table = False, display_progress = True\<rparr>,
        Call_propose_instructions 1 [10, 11] None 10 True True True True,
        Call_optimize_prompt_parameters 1 0 None
          \<lparr>devset = [1, 2, 3, 4, 5], settings = (),
            display_table = False, display_progress = True\<rparr>
          [1, 2, 3, 4, 5] 30 True 5 10 (Some 9)] :: (nat, nat, nat, unit) event list"
  have exists: "0 < length (programs example_world)"
    by (simp add: example_world_def)
  have run: "compile (example_base True) 0 ?a (example_world, [])
               = (Inr 1, (example_world\<lparr>programs := [0, 1]\<rparr>, ?tr'))"
    by (simp add: compile_def compile_setup_def compile_optimize_def compile_propose_and_search_def stmt_defs call_defs
          example_defs Let_def)
  from student_never_mutated [OF example_base_frame exists run] run show ?thesis
    by (simp add: example_world_def)
qed

text \<open>
  Claim C9. When the caller passes \<^verbatim>\<open>seed=0\<close> or \<^verbatim>\<open>seed=None\<close>, the first thing
  \<^verbatim>\<open>compile\<close> does is to seed the random number generators with \<^verbatim>\<open>self.seed\<close>, and the
  seed it hands to the search is \<^verbatim>\<open>self.seed\<close> as well.
\<close>

theorem falsy_seed_uses_instance_seed:
  assumes "seed a = None \<or> seed a = Some 0"
    and "compile h student a (w, tr) = (r, (w', tr'))"
  shows "\<exists>evs. tr' = tr @ Call_set_random_seeds (self_seed w) # evs
           \<and> list_all (seeded_with (self_seed w)) evs"
proof -
  from assms(1) have "seed_or (seed a) (self_seed w) = self_seed w" by auto
  with compile_events [OF assms(2)] show ?thesis by auto
qed

theorem falsy_seed_uses_instance_seed_witness:
  "compile (example_base True) 0
     (example_args\<lparr>seed := Some 0, minibatch_size := 5, requires_permission_to_run := False\<rparr>)
     (example_world, []) =
     (Inr 1,
      (example_world\<lparr>programs := [0, 1]\<rparr>,
       [Call_set_random_seeds (Some 9),
        Call_set_and_validate_datasets [10, 11] (Some [1, 2, 3, 4, 5]),
        Call_set_hyperparams_from_run_mode 0 30 True False [1, 2, 3, 4, 5],
        Call_deepcopy 0,
        Evaluate_created \<lparr>devset = [1, 2, 3, 4, 5], settings = (),
                           display_table = False, display_progress = True\<rparr>,
        Call_propose_instructions 1 [10, 11] None 10 True True True True,
        Call_optimize_prompt_parameters 1 0 None
          \<lparr>devset = [1, 2, 3, 4, 5], settings = (),
            display_table = False, display_progress = True\<rparr>
          [1, 2, 3, 4, 5] 30 True 5 10 (Some 9)]))
   \<and> self_seed example_world = Some 9"
proof -
  let ?a = "example_args\<lparr>seed := Some 0, minibatch_size := 5,
              requires_permission_to_run := False\<rparr>"
  let ?tr' = "[Call_set_random_seeds (Some 9),
        Call_set_and_validate_datasets [10, 11] (Some [1, 2, 3, 4, 5]),
        Call_set_hyperparams_from_run_mode 0 30 True False [1, 2, 3, 4, 5],
        Call_deepcopy 0,
        Evaluate_created \<lparr>devset = [1, 2, 3, 4, 5], settings = (),
                           display_table = False, display_progress = True\<rparr>,
        Call_propose_instructions 1 [10, 11] None 10 True True True True,
        Call_optimize_prompt_parameters 1 0 None
          \<lparr>devset = [1, 2, 3, 4, 5], settings = (),
            display_table = False, display_progress = True\<rparr>
          [1, 2, 3, 4, 5] 30 True 5 10 (Some 9)] :: (nat, nat, nat, unit) event list"
  have falsy: "seed ?a = None \<or> seed ?a = Some 0" by simp
  have run: "compile (example_base True) 0 ?a (example_world, [])
               = (Inr 1, (example_world\<lparr>programs := [0, 1]\<rparr>, ?tr'))"
    by (simp add: compile_def compile_setup_def compile_optimize_def compile_propose_and_search_def stmt_defs call_defs
          example_defs Let_def)
  from falsy_seed_uses_instance_seed [OF falsy run] run show ?thesis
    by (simp add: example_world_def)
qed

text \<open>
  Claim C10, as amended. Provided the methods of the base class leave the two attributes
  alone and the seeding of line 56 returns, \<^verbatim>\<open>self.max_bootstrapped_demos\<close> and
  \<^verbatim>\<open>self.max_labeled_demos\<close> hold the values of the arguments that were not \<^verbatim>\<open>None\<close>
  when \<^verbatim>\<open>compile\<close> is over, however it ends; and a later call on the same instance that
  passes \<^verbatim>\<open>None\<close> for both takes its zero-shot decision from the values left behind.
\<close>

theorem max_demos_overrides_persist:
  assumes "keeps_max_demos h"
    and "set_random_seeds h (seed_or (seed a) (self_seed w)) w = (Inr (), w1)"
    and "compile h student a (w, tr) = (r, (w', tr'))"
  shows "self_max_bootstrapped_demos w'
           = overridden (max_bootstrapped_demos a) (self_max_bootstrapped_demos w)
         \<and> self_max_labeled_demos w'
           = overridden (max_labeled_demos a) (self_max_labeled_demos w)
         \<and> (\<forall>student2 a2 tr2 l2 s2.
               max_bootstrapped_demos a2 = None \<and> max_labeled_demos a2 = None
               \<and> compile_setup h student2 a2 (w', tr2) = (Inr l2, s2)
               \<longrightarrow> l_zeroshot_opt l2
                     = (self_max_bootstrapped_demos w' = 0 \<and> self_max_labeled_demos w' = 0))"
proof -
  let ?b = "overridden (max_bootstrapped_demos a) (self_max_bootstrapped_demos w)"
  let ?l = "overridden (max_labeled_demos a) (self_max_labeled_demos w)"
  have now: "self_max_bootstrapped_demos w' = ?b \<and> self_max_labeled_demos w' = ?l"
    using assms(3) unfolding compile_def
  proof (cases rule: then_doE)
    case (raised e)
    with compile_setup_max_demos [OF assms(1,2), of student tr "Inl e" w' tr']
    show ?thesis by simp
  next
    case (returned l s1)
    obtain w2 tr2 where s1: "s1 = (w2, tr2)" by (cases s1)
    from compile_setup_max_demos [OF assms(1,2), of student tr "Inr l" w2 tr2] returned(1) s1
    have w2: "self_max_bootstrapped_demos w2 = ?b \<and> self_max_labeled_demos w2 = ?l"
      by simp
    have opt: "same_max_demos w3 w'"
      if "compile_optimize h student a l (w3, tr3) = (r, (w', tr'))" for w3 tr3
      using compile_optimize_max_demos [OF assms(1) that] .
    from returned(2) show ?thesis
      using w2 opt unfolding s1
      by (auto simp: raise_def emit_def return_def do_get_user_confirmation_def
            same_max_demos_def
            elim!: then_doE callE dest!: keeps_max_demosD(5) [OF assms(1)]
            split: if_splits)
  qed
  have later: "l_zeroshot_opt l2
      = (self_max_bootstrapped_demos w' = 0 \<and> self_max_labeled_demos w' = 0)"
    if "max_bootstrapped_demos a2 = None" and "max_labeled_demos a2 = None"
      and "compile_setup h student2 a2 (w', tr2) = (Inr l2, s2)"
    for student2 a2 tr2 l2 s2
  proof -
    obtain w3 tr3 where s2: "s2 = (w3, tr3)" by (cases s2)
    from that(3) have "\<exists>w4. set_random_seeds h (seed_or (seed a2) (self_seed w')) w' = (Inr (), w4)"
      unfolding compile_setup_def Let_def call_defs
      by (auto simp: attr_def elim!: then_doE callE)
    then obtain w4 where "set_random_seeds h (seed_or (seed a2) (self_seed w')) w' = (Inr (), w4)" ..
    from compile_setup_max_demos [OF assms(1) this, of student2 tr2 "Inr l2" w3 tr3] that s2
    show ?thesis by simp
  qed
  from now later show ?thesis by blast
qed

theorem max_demos_overrides_persist_witness:
  "compile (example_base False) 0
     (example_args\<lparr>max_bootstrapped_demos := Some 0, max_labeled_demos := Some 0,
                    minibatch_size := 5\<rparr>)
     (example_world, []) =
     (Inr 0,
      (example_world\<lparr>self_max_bootstrapped_demos := 0, self_max_labeled_demos := 0\<rparr>,
       [Call_set_random_seeds (Some 9),
        Call_set_and_validate_datasets [10, 11] (Some [1, 2, 3, 4, 5]),
        Call_set_hyperparams_from_run_mode 0 30 True True [1, 2, 3, 4, 5],
        Call_get_user_confirmation 0 30 True 5 10 [1, 2, 3, 4, 5] True,
        Logger_info ''Compilation aborted by the user.'']))
   \<and> self_max_bootstrapped_demos example_world = 4
   \<and> self_max_labeled_demos example_world = 4
   \<and> compile_setup (example_base False) 0 example_args
        (example_world\<lparr>self_max_bootstrapped_demos := 0, self_max_labeled_demos := 0\<rparr>, []) =
     (Inr \<lparr>l_seed = Some 9, l_trainset = [10, 11], l_valset = [1, 2, 3, 4, 5],
           l_num_trials = 30, l_minibatch = True, l_zeroshot_opt = True\<rparr>,
      (example_world\<lparr>self_max_bootstrapped_demos := 0, self_max_labeled_demos := 0\<rparr>,
       [Call_set_random_seeds (Some 9),
        Call_set_and_validate_datasets [10, 11] (Some [1, 2, 3, 4, 5]),
        Call_set_hyperparams_from_run_mode 0 30 True True [1, 2, 3, 4, 5]]))"
proof -
  let ?a = "example_args\<lparr>max_bootstrapped_demos := Some 0, max_labeled_demos := Some 0,
                    minibatch_size := 5\<rparr>"
  let ?w' = "example_world\<lparr>self_max_bootstrapped_demos := 0, self_max_labeled_demos := 0\<rparr>"
  let ?tr' = "[Call_set_random_seeds (Some 9),
        Call_set_and_validate_datasets [10, 11] (Some [1, 2, 3, 4, 5]),
        Call_set_hyperparams_from_run_mode 0 30 True True [1, 2, 3, 4, 5],
        Call_get_user_confirmation 0 30 True 5 10 [1, 2, 3, 4, 5] True,
        Logger_info ''Compilation aborted by the user.''] :: (nat, nat, nat, unit) event list"
  let ?l2 = "\<lparr>l_seed = Some 9, l_trainset = [10, 11], l_valset = [1, 2, 3, 4, 5],
           l_num_trials = 30, l_minibatch = True, l_zeroshot_opt = True\<rparr> :: nat locals"
  let ?s2 = "(?w',
       [Call_set_random_seeds (Some 9),
        Call_set_and_validate_datasets [10, 11] (Some [1, 2, 3, 4, 5]),
        Call_set_hyperparams_from_run_mode 0 30 True True [1, 2, 3, 4, 5]
          :: (nat, nat, nat, unit) event])"
  have seeds: "set_random_seeds (example_base False)
                 (seed_or (seed ?a) (self_seed example_world)) example_world
               = (Inr (), example_world)"
    by (simp add: example_base_def)
  have run: "compile (example_base False) 0 ?a (example_world, []) = (Inr 0, (?w', ?tr'))"
    by (simp add: compile_def compile_setup_def stmt_defs call_defs example_defs Let_def)
  have later: "compile_setup (example_base False) 0 example_args (?w', []) = (Inr ?l2, ?s2)"
    by (simp add: compile_setup_def stmt_defs call_defs example_defs Let_def)
  have none: "max_bootstrapped_demos example_args = None \<and> max_labeled_demos example_args = None"
    by (simp add: example_args_def)
  from max_demos_overrides_persist [OF example_base_keeps_max_demos seeds run] none later run
  show ?thesis by (simp add: example_world_def)
qed

text \<open>
  The claim as stated covers every call. The seeding of line 56 comes before the
  overrides of lines 58 to 62: in a call whose seeding raises, here for a negative seed,
  \<^verbatim>\<open>compile\<close> ends with that exception and the two attributes are what they were, although
  both arguments were given.
\<close>

theorem max_demos_overrides_persist_counterexample:
  "compile (strict_seed_base False) 0
     (example_args\<lparr>seed := Some (- 1), max_bootstrapped_demos := Some 0,
                    max_labeled_demos := Some 0\<rparr>)
     (example_world, []) =
     (Inl (PyException ''ValueError'' ''Seed must be between 0 and 2**32 - 1''),
      (example_world, [Call_set_random_seeds (Some (- 1))]))
   \<and> self_max_bootstrapped_demos example_world = 4
   \<and> self_max_labeled_demos example_world = 4
   \<and> keeps_max_demos (strict_seed_base False)"
  by (simp add: compile_def compile_setup_def stmt_defs call_defs strict_seed_base_def
        example_defs Let_def keeps_max_demos_def same_max_demos_def split: option.splits)

end
